theory Spec2Isabelle
  imports Complex_Main "HOL-Library.Sublist" "HOL-Library.Multiset"
begin

section \<open>Anima recommendation engine: \<^verbatim>\<open>recommendation_engine.py\<close>\<close>

text \<open>
  A shallow embedding of \<^verbatim>\<open>src/backend/python/recommendation_engine.py\<close>.
  Python floats are modelled as \<^typ>\<open>real\<close>, Python ints as \<^typ>\<open>int\<close>, strings as
  \<^typ>\<open>string\<close> (ASCII), exceptions as values of \<open>error\<close>.
\<close>

subsection \<open>String operations of the Python runtime\<close>

text \<open>\<^verbatim>\<open>str.lower()\<close>, on ASCII letters; every other character is left as it is.\<close>

definition lower_char :: "char \<Rightarrow> char" where
  "lower_char c =
     (case map_of (zip ''ABCDEFGHIJKLMNOPQRSTUVWXYZ'' ''abcdefghijklmnopqrstuvwxyz'') c of
        None \<Rightarrow> c
      | Some d \<Rightarrow> d)"

definition lower :: "string \<Rightarrow> string" where
  "lower s = map lower_char s"

text \<open>\<^verbatim>\<open>str.isspace()\<close> on one ASCII character: codes 9 to 13, 28 to 31 and 32.\<close>

definition is_space :: "char \<Rightarrow> bool" where
  "is_space c =
     (let n = (of_char c :: nat) in (9 \<le> n \<and> n \<le> 13) \<or> (28 \<le> n \<and> n \<le> 32))"

text \<open>
  \<^verbatim>\<open>str.split()\<close> with no argument: the maximal runs of non-space characters, in
  order. \<open>split_go cur s\<close> scans \<open>s\<close> with the word read so far in \<open>cur\<close>.
\<close>

fun split_go :: "string \<Rightarrow> string \<Rightarrow> string list" where
  "split_go cur [] = (if cur = [] then [] else [cur])"
| "split_go cur (c # cs) =
     (if is_space c
      then (if cur = [] then split_go [] cs else cur # split_go [] cs)
      else split_go (cur @ [c]) cs)"

definition split :: "string \<Rightarrow> string list" where
  "split s = split_go [] s"

text \<open>\<^verbatim>\<open>sep.join(xs)\<close>.\<close>

fun join :: "string \<Rightarrow> string list \<Rightarrow> string" where
  "join sep [] = []"
| "join sep [x] = x"
| "join sep (x # y # ys) = x @ sep @ join sep (y # ys)"

text \<open>\<^verbatim>\<open>w in s\<close> on strings: \<open>w\<close> occurs in \<open>s\<close> as a contiguous substring.\<close>

fun is_substring :: "string \<Rightarrow> string \<Rightarrow> bool" where
  "is_substring w [] = (w = [])"
| "is_substring w (c # cs) = (prefix w (c # cs) \<or> is_substring w cs)"

subsection \<open>Mood keyword table and query expansion\<close>

text \<open>
  \<^verbatim>\<open>MOOD_KEYWORDS\<close>: a dict literal, iterated by \<^verbatim>\<open>.items()\<close> in insertion order,
  hence an association list.
\<close>

definition MOOD_KEYWORDS :: "(string \<times> string list) list" where
  "MOOD_KEYWORDS =
   [(''rainy afternoon'',
       [''slice of life'', ''drama'', ''melancholy'', ''calm'', ''atmospheric'', ''emotional'']),
    (''epic fight scenes'',
       [''action'', ''shounen'', ''martial arts'', ''superpowers'', ''battle'', ''tournament'']),
    (''wholesome and cozy'',
       [''slice of life'', ''comedy'', ''iyashikei'', ''heartwarming'', ''friendship'', ''healing'']),
    (''mind-bending thriller'',
       [''psychological'', ''thriller'', ''mystery'', ''suspense'', ''plot twist'', ''dark'']),
    (''action-packed adventure'',
       [''action'', ''adventure'', ''fantasy'', ''isekai'', ''journey'', ''exploration'']),
    (''emotional and deep'',
       [''drama'', ''tragedy'', ''romance'', ''psychological'', ''mature'', ''character development'']),
    (''high-budget pixel fights'',
       [''action'', ''animation quality'', ''sakuga'', ''mecha'', ''sci-fi'', ''fantasy'']),
    (''romantic comedy'',
       [''romance'', ''comedy'', ''school'', ''slice of life'', ''heartwarming'', ''love'']),
    (''dark and gritty'',
       [''seinen'', ''dark'', ''psychological'', ''horror'', ''mature'', ''violence'']),
    (''nostalgic classic'',
       [''classic'', ''retro'', ''90s'', ''80s'', ''influential'', ''legendary''])]"

text \<open>
  The test of the loop body of \<^verbatim>\<open>expand_mood_query\<close>:
  \<^verbatim>\<open>any(word in query_lower for word in mood.split())\<close>.
\<close>

definition mood_matches :: "string \<Rightarrow> string \<Rightarrow> bool" where
  "mood_matches query_lower mood = list_ex (\<lambda>word. is_substring word query_lower) (split mood)"

text \<open>
  The \<^verbatim>\<open>for mood, keywords in MOOD_KEYWORDS.items()\<close> loop, with the list
  \<^verbatim>\<open>expanded_terms\<close> as accumulator.
\<close>

fun expand_loop :: "(string \<times> string list) list \<Rightarrow> string \<Rightarrow> string list \<Rightarrow> string list" where
  "expand_loop [] query_lower expanded_terms = expanded_terms"
| "expand_loop ((mood, keywords) # rest) query_lower expanded_terms =
     (if mood_matches query_lower mood
      then expand_loop rest query_lower (expanded_terms @ keywords)
      else expand_loop rest query_lower expanded_terms)"

definition expand_mood_query :: "string \<Rightarrow> string" where
  "expand_mood_query query =
     (let query_lower = lower query;
          expanded_terms = expand_loop MOOD_KEYWORDS query_lower [query]
      in join '' '' expanded_terms)"

subsection \<open>Errors and catalog data\<close>

text \<open>
  The exceptions the engine can raise: \<^verbatim>\<open>ValueError(message)\<close> from its own
  \<^verbatim>\<open>raise\<close> statements, \<^verbatim>\<open>IndexError\<close> from an index out of range, and
  scikit-learn's \<^verbatim>\<open>NotFittedError\<close> from a vectorizer used before it was fitted.
\<close>

datatype error = ValueError string | IndexError | NotFittedError

record AnimeData =
  a_id :: int
  title :: string
  description :: string
  genres :: "string list"
  tags :: "string list"
  score :: real
  popularity :: int

definition to_text :: "AnimeData \<Rightarrow> string" where
  "to_text a =
     title a @ '' '' @ description a @ '' '' @ join '' '' (genres a) @ '' '' @ join '' '' (tags a)"

text \<open>
  One element of the \<^verbatim>\<open>anime_list\<close> argument of \<^verbatim>\<open>load_anime_data\<close>: a dict
  in which each key may be absent; \<open>dict_get\<close> is \<^verbatim>\<open>dict.get(key, default)\<close>.
\<close>

record anime_dict =
  d_id :: "int option"
  d_title :: "string option"
  d_description :: "string option"
  d_genres :: "string list option"
  d_tags :: "string list option"
  d_score :: "real option"
  d_popularity :: "int option"

definition dict_get :: "'a option \<Rightarrow> 'a \<Rightarrow> 'a" where
  "dict_get v dflt = (case v of None \<Rightarrow> dflt | Some x \<Rightarrow> x)"

definition AnimeData_of :: "anime_dict \<Rightarrow> AnimeData" where
  "AnimeData_of anime =
     \<lparr>a_id = dict_get (d_id anime) 0,
      title = dict_get (d_title anime) [],
      description = dict_get (d_description anime) [],
      genres = dict_get (d_genres anime) [],
      tags = dict_get (d_tags anime) [],
      score = dict_get (d_score anime) 0,
      popularity = dict_get (d_popularity anime) 0\<rparr>"

subsection \<open>Engine state\<close>

text \<open>
  The attributes of \<^verbatim>\<open>AnimeRecommendationEngine\<close> that the operations read and
  write. The TF-IDF matrix is a list of rows. A fitted \<^verbatim>\<open>TfidfVectorizer\<close> is
  represented by the function its \<^verbatim>\<open>transform\<close> computes on one document;
  \<open>None\<close> is the vectorizer that \<^verbatim>\<open>__init__\<close> creates, not fitted yet. The type
  \<open>'k\<close> stands for a fitted \<^verbatim>\<open>KMeans\<close> object.
\<close>

type_synonym matrix = "real list list"

record 'k engine =
  vectorizer :: "(string \<Rightarrow> real list) option"
  anime_data :: "AnimeData list"
  tfidf_matrix :: "matrix option"
  kmeans :: "'k option"

definition init :: "'k engine" where
  "init = \<lparr>vectorizer = None, anime_data = [], tfidf_matrix = None, kmeans = None\<rparr>"

definition load_anime_data :: "anime_dict list \<Rightarrow> 'k engine \<Rightarrow> 'k engine" where
  "load_anime_data anime_list self = self\<lparr>anime_data := map AnimeData_of anime_list\<rparr>"

text \<open>
  \<^verbatim>\<open>train\<close> returns the exception raised, if any, and the state it leaves behind.
  scikit-learn's \<^verbatim>\<open>TfidfVectorizer.fit_transform\<close> and \<^verbatim>\<open>KMeans(n_clusters,
  random_state=42).fit\<close> are parameters: the first maps the corpus to the fitted
  vectorizer and the matrix, the second the cluster count and the matrix to the fitted
  clustering.
\<close>

definition train ::
  "(string list \<Rightarrow> (string \<Rightarrow> real list) \<times> matrix) \<Rightarrow> (nat \<Rightarrow> matrix \<Rightarrow> 'k) \<Rightarrow>
   'k engine \<Rightarrow> error option \<times> 'k engine" where
  "train fit_transform KMeans_fit self =
     (if anime_data self = []
      then (Some (ValueError ''No anime data loaded. Call load_anime_data first.''), self)
      else
        let corpus = map to_text (anime_data self);
            (fitted, X) = fit_transform corpus;
            self1 = self\<lparr>vectorizer := Some fitted, tfidf_matrix := Some X\<rparr>;
            n_clusters = min 50 (length (anime_data self) div 10)
        in if n_clusters > 1
           then (None, self1\<lparr>kmeans := Some (KMeans_fit n_clusters X)\<rparr>)
           else (None, self1))"

subsection \<open>Cosine similarity and index sorting (scikit-learn, numpy)\<close>

text \<open>
  \<^verbatim>\<open>sklearn.metrics.pairwise.cosine_similarity(x, Y).flatten()\<close> for one row
  \<open>x\<close>: both sides are scaled to Euclidean length one, a row of length zero being left
  as it is (its similarity to anything is 0), and the dot products with the rows of
  \<open>Y\<close> are returned, one for each row. The vectors here come from one vectorizer and
  have one width.
\<close>

definition l2_norm :: "real list \<Rightarrow> real" where
  "l2_norm v = sqrt (sum_list (map (\<lambda>x. x * x) v))"

definition normalize_l2 :: "real list \<Rightarrow> real list" where
  "normalize_l2 v = (let n = l2_norm v; n' = (if n = 0 then 1 else n) in map (\<lambda>x. x / n') v)"

definition dot :: "real list \<Rightarrow> real list \<Rightarrow> real" where
  "dot u v = sum_list (map (\<lambda>(a, b). a * b) (zip u v))"

definition cosine_similarity :: "real list \<Rightarrow> matrix \<Rightarrow> real list" where
  "cosine_similarity x Y = (let xn = normalize_l2 x in map (\<lambda>y. dot xn (normalize_l2 y)) Y)"

text \<open>
  \<^verbatim>\<open>a.argsort()\<close> is numpy's, called with its default sort kind, which is not
  stable: the engine's two ranking operations take it as the parameter \<open>argsort\<close>.
  What numpy promises of its result is stated by \<open>is_argsort_of a idxs\<close>: \<open>idxs\<close>
  lists every index of \<open>a\<close> once, in ascending order of the values. The order among
  equal values is left open.
\<close>

definition is_argsort_of :: "real list \<Rightarrow> nat list \<Rightarrow> bool" where
  "is_argsort_of a idxs = (mset idxs = mset [0..<length a] \<and> sorted (map (\<lambda>i. a ! i) idxs))"

text \<open>\<^verbatim>\<open>xs[1:stop]\<close>: a negative \<open>stop\<close> counts from the end, and both ends are clipped.\<close>

definition slice_from_1 :: "'a list \<Rightarrow> int \<Rightarrow> 'a list" where
  "slice_from_1 xs stop =
     (let n = int (length xs);
          e = (if stop < 0 then max 0 (stop + n) else min stop n)
      in drop 1 (take (nat e) xs))"

subsection \<open>Mood search\<close>

record mood_result =
  r_id :: int
  r_title :: string
  r_genres :: "string list"
  r_score :: real
  r_similarity :: real
  r_description :: string

definition mood_result_of :: "AnimeData \<Rightarrow> real \<Rightarrow> mood_result" where
  "mood_result_of anime similarity =
     \<lparr>r_id = a_id anime,
      r_title = title anime,
      r_genres = genres anime,
      r_score = score anime,
      r_similarity = similarity,
      r_description =
        (if length (description anime) > 200 then take 200 (description anime) @ ''...''
         else description anime)\<rparr>"

text \<open>
  The \<^verbatim>\<open>for idx in top_indices\<close> loop of \<^verbatim>\<open>search_by_mood\<close>, with \<open>results\<close>
  as accumulator; \<^verbatim>\<open>self.anime_data[idx]\<close> raises \<^verbatim>\<open>IndexError\<close> when the catalog
  is shorter than the matrix.
\<close>

fun search_loop ::
  "AnimeData list \<Rightarrow> real list \<Rightarrow> int \<Rightarrow> real \<Rightarrow> nat list \<Rightarrow> mood_result list \<Rightarrow>
   error + mood_result list" where
  "search_loop data similarities limit min_score [] results = Inr results"
| "search_loop data similarities limit min_score (idx # rest) results =
     (if idx < length data
      then
        let anime = data ! idx in
        if score anime \<ge> min_score
        then
          let results' = results @ [mood_result_of anime (similarities ! idx)] in
          if int (length results') \<ge> limit then Inr results'
          else search_loop data similarities limit min_score rest results'
        else search_loop data similarities limit min_score rest results
      else Inl IndexError)"

definition search_by_mood ::
  "(real list \<Rightarrow> nat list) \<Rightarrow> 'k engine \<Rightarrow> string \<Rightarrow> int \<Rightarrow> real \<Rightarrow>
   error + mood_result list" where
  "search_by_mood argsort self query limit min_score =
     (case tfidf_matrix self of
        None \<Rightarrow> Inl (ValueError ''Model not trained. Call train() first.'')
      | Some X \<Rightarrow>
          let expanded_query = expand_mood_query query in
          (case vectorizer self of
             None \<Rightarrow> Inl NotFittedError
           | Some transform \<Rightarrow>
               let query_vector = transform expanded_query;
                   similarities = cosine_similarity query_vector X;
                   top_indices = rev (argsort similarities)
               in search_loop (anime_data self) similarities limit min_score top_indices []))"

subsection \<open>Similar items\<close>

record similar_result =
  s_id :: int
  s_title :: string
  s_genres :: "string list"
  s_score :: real
  s_similarity :: real

definition similar_result_of :: "AnimeData \<Rightarrow> real \<Rightarrow> similar_result" where
  "similar_result_of anime similarity =
     \<lparr>s_id = a_id anime,
      s_title = title anime,
      s_genres = genres anime,
      s_score = score anime,
      s_similarity = similarity\<rparr>"

text \<open>
  The \<^verbatim>\<open>for idx, anime in enumerate(self.anime_data)\<close> loop with its \<^verbatim>\<open>break\<close>:
  the first position whose id is \<open>anime_id\<close>, counted from \<open>idx\<close>.
\<close>

fun find_index :: "int \<Rightarrow> AnimeData list \<Rightarrow> nat \<Rightarrow> nat option" where
  "find_index anime_id [] idx = None"
| "find_index anime_id (anime # rest) idx =
     (if a_id anime = anime_id then Some idx else find_index anime_id rest (Suc idx))"

fun similar_loop ::
  "AnimeData list \<Rightarrow> real list \<Rightarrow> nat list \<Rightarrow> similar_result list \<Rightarrow>
   error + similar_result list" where
  "similar_loop data similarities [] results = Inr results"
| "similar_loop data similarities (idx # rest) results =
     (if idx < length data
      then similar_loop data similarities rest
             (results @ [similar_result_of (data ! idx) (similarities ! idx)])
      else Inl IndexError)"

definition find_similar_anime ::
  "(real list \<Rightarrow> nat list) \<Rightarrow> 'k engine \<Rightarrow> int \<Rightarrow> int \<Rightarrow> error + similar_result list" where
  "find_similar_anime argsort self anime_id limit =
     (case tfidf_matrix self of
        None \<Rightarrow> Inl (ValueError ''Model not trained. Call train() first.'')
      | Some X \<Rightarrow>
          (case find_index anime_id (anime_data self) 0 of
             None \<Rightarrow> Inr []
           | Some anime_idx \<Rightarrow>
               if anime_idx < length X
               then
                 let anime_vector = X ! anime_idx;
                     similarities = cosine_similarity anime_vector X;
                     top_indices = slice_from_1 (rev (argsort similarities)) (limit + 1)
                 in similar_loop (anime_data self) similarities top_indices []
               else Inl IndexError))"

subsection \<open>Party matching\<close>

record 'u other_user =
  user_id :: 'u
  watchlist :: "int list"

record 'u party_match_result =
  m_user_id :: 'u
  compatibility :: real
  shared_anime :: "int set"
  shared_count :: nat

text \<open>
  The \<^verbatim>\<open>for other in other_users\<close> loop, with \<open>matches\<close> as accumulator. The list
  \<^verbatim>\<open>list(user_set & other_set)\<close> has no specified order and is kept as a set.
\<close>

fun match_loop ::
  "int set \<Rightarrow> 'u other_user list \<Rightarrow> real \<Rightarrow> 'u party_match_result list \<Rightarrow>
   'u party_match_result list" where
  "match_loop user_set [] min_overlap matches = matches"
| "match_loop user_set (other # rest) min_overlap matches =
     (let other_set = set (watchlist other);
          intersection = card (user_set \<inter> other_set);
          union = card (user_set \<union> other_set)
      in if union > 0
         then
           let similarity = real intersection / real union in
           if similarity \<ge> min_overlap
           then match_loop user_set rest min_overlap
                  (matches @
                   [\<lparr>m_user_id = user_id other,
                     compatibility = similarity,
                     shared_anime = user_set \<inter> other_set,
                     shared_count = intersection\<rparr>])
           else match_loop user_set rest min_overlap matches
         else match_loop user_set rest min_overlap matches)"

text \<open>
  \<^verbatim>\<open>xs.sort(key=key, reverse=True)\<close>: CPython reverses the list, sorts it stably in
  ascending order and reverses the result, so equal keys keep their original order.
\<close>

definition sort_reverse :: "('a \<Rightarrow> real) \<Rightarrow> 'a list \<Rightarrow> 'a list" where
  "sort_reverse key xs = rev (sort_key key (rev xs))"

definition party_match ::
  "int list \<Rightarrow> 'u other_user list \<Rightarrow> real \<Rightarrow> 'u party_match_result list" where
  "party_match user_watchlist other_users min_overlap =
     (let user_set = set user_watchlist;
          matches = match_loop user_set other_users min_overlap []
      in sort_reverse compatibility matches)"

section \<open>Specification-side definitions\<close>

text \<open>
  The expansion rule in the words of the specification: a mood phrase matches when one
  of its words, compared without regard to case, occurs in the lower-cased query; the
  output carries the keyword lists of the matching phrases in table order.
\<close>

definition spec_phrase_matches :: "string \<Rightarrow> string \<Rightarrow> bool" where
  "spec_phrase_matches query mood =
     list_ex (\<lambda>w. is_substring (lower w) (lower query)) (split mood)"

definition spec_matched_keywords :: "string \<Rightarrow> string list" where
  "spec_matched_keywords query =
     concat (map snd (filter (\<lambda>(mood, keywords). spec_phrase_matches query mood) MOOD_KEYWORDS))"

text \<open>
  Jaccard similarity in the words of the specification, 0 when the union is empty, and
  the match record the specification reports for one candidate.
\<close>

definition spec_jaccard :: "int set \<Rightarrow> int set \<Rightarrow> real" where
  "spec_jaccard A B = (if A \<union> B = {} then 0 else real (card (A \<inter> B)) / real (card (A \<union> B)))"

definition spec_match_of :: "int set \<Rightarrow> 'u other_user \<Rightarrow> 'u party_match_result" where
  "spec_match_of target c =
     \<lparr>m_user_id = user_id c,
      compatibility = spec_jaccard target (set (watchlist c)),
      shared_anime = target \<inter> set (watchlist c),
      shared_count = card (target \<inter> set (watchlist c))\<rparr>"

section \<open>Example states\<close>

text \<open>
  A catalog of two items with the one-term texts \<^verbatim>\<open>Naruto\<close> and \<^verbatim>\<open>Bleach\<close>, its
  TF-IDF matrix over the vocabulary (naruto, bleach), and a vectorizer that marks
  which of the two terms a text contains.
\<close>

definition naruto :: AnimeData where
  "naruto = \<lparr>a_id = 1, title = ''Naruto'', description = [], genres = [], tags = [],
            score = 8, popularity = 0\<rparr>"

definition bleach :: AnimeData where
  "bleach = \<lparr>a_id = 2, title = ''Bleach'', description = [], genres = [], tags = [],
            score = 7, popularity = 0\<rparr>"

definition example_transform :: "string \<Rightarrow> real list" where
  "example_transform text =
     [if is_substring ''naruto'' (lower text) then 1 else 0,
      if is_substring ''bleach'' (lower text) then 1 else 0]"

definition example_engine :: "unit engine" where
  "example_engine =
     \<lparr>vectorizer = Some example_transform,
      anime_data = [naruto, bleach],
      tfidf_matrix = Some [[1, 0], [0, 1]],
      kmeans = None\<rparr>"

text \<open>
  A catalog in which two items with different ids carry the same text: both rows of
  the matrix are the unit vector of the single term.
\<close>

definition naruto_again :: AnimeData where
  "naruto_again = \<lparr>a_id = 2, title = ''Naruto'', description = [], genres = [], tags = [],
                  score = 7, popularity = 0\<rparr>"

definition twin_engine :: "unit engine" where
  "twin_engine =
     \<lparr>vectorizer = Some (\<lambda>text. [if is_substring ''naruto'' (lower text) then 1 else 0]),
      anime_data = [naruto, naruto_again],
      tfidf_matrix = Some [[1], [1]],
      kmeans = None\<rparr>"

text \<open>
  An index sort that meets the contract of \<open>argsort\<close> and keeps equal values in index
  order. On the two-element arrays of the examples numpy's \<^verbatim>\<open>argsort\<close> returns the
  same indices; on longer arrays with equal values it need not.
\<close>

definition argsort_stable :: "real list \<Rightarrow> nat list" where
  "argsort_stable a = sort_key (\<lambda>i. a ! i) [0..<length a]"

section \<open>Properties\<close>

subsection \<open>Query expansion\<close>

lemma is_substring_sublist: "is_substring w s = sublist w s"
  by (induction s) (auto simp: sublist_Cons_right)

lemma expand_loop_filter:
  "expand_loop tbl ql terms =
     terms @ concat (map snd (filter (\<lambda>(mood, keywords). mood_matches ql mood) tbl))"
  by (induction tbl ql terms rule: expand_loop.induct) auto

text \<open>Every word of every key of the table is already in lower case.\<close>

lemma mood_words_lower:
  "\<forall>(mood, keywords) \<in> set MOOD_KEYWORDS. \<forall>w \<in> set (split mood). lower w = w"
  by (simp add: MOOD_KEYWORDS_def split_def is_space_def lower_def lower_char_def)

lemma spec_phrase_matches_table:
  assumes "(mood, keywords) \<in> set MOOD_KEYWORDS"
  shows "spec_phrase_matches query mood = mood_matches (lower query) mood"
proof -
  from assms mood_words_lower have "\<forall>w \<in> set (split mood). lower w = w"
    by blast
  then show ?thesis
    by (simp add: spec_phrase_matches_def mood_matches_def list_ex_iff)
qed

lemma spec_matched_keywords_loop:
  "spec_matched_keywords query =
     concat (map snd (filter (\<lambda>(mood, keywords). mood_matches (lower query) mood) MOOD_KEYWORDS))"
proof -
  have "filter (\<lambda>(mood, keywords). spec_phrase_matches query mood) MOOD_KEYWORDS =
        filter (\<lambda>(mood, keywords). mood_matches (lower query) mood) MOOD_KEYWORDS"
    by (rule filter_cong) (auto simp: spec_phrase_matches_table)
  then show ?thesis
    by (simp add: spec_matched_keywords_def)
qed

lemma expand_mood_query_terms:
  "expand_mood_query query = join '' '' (query # spec_matched_keywords query)"
  by (simp add: expand_mood_query_def expand_loop_filter spec_matched_keywords_loop)

text \<open>
  C6. \<^verbatim>\<open>expand_mood_query\<close> returns the query followed, joined by single spaces and
  in table order, by the keyword lists of every mood phrase one of whose words occurs,
  case-insensitively, in the lower-cased query; when no phrase matches, the result is
  the query itself.
\<close>

theorem expand_mood_query_spec:
  "expand_mood_query query = join '' '' (query # spec_matched_keywords query) \<and>
   (\<not> list_ex (\<lambda>(mood, keywords). spec_phrase_matches query mood) MOOD_KEYWORDS
      \<longrightarrow> expand_mood_query query = query)"
proof (intro conjI impI)
  show "expand_mood_query query = join '' '' (query # spec_matched_keywords query)"
    by (rule expand_mood_query_terms)
next
  assume "\<not> list_ex (\<lambda>(mood, keywords). spec_phrase_matches query mood) MOOD_KEYWORDS"
  then have "filter (\<lambda>(mood, keywords). spec_phrase_matches query mood) MOOD_KEYWORDS = []"
    by (auto simp: list_ex_iff filter_empty_conv)
  then show "expand_mood_query query = query"
    by (simp add: expand_mood_query_terms spec_matched_keywords_def)
qed

theorem expand_mood_query_spec_witness:
  "\<not> list_ex (\<lambda>(mood, keywords). spec_phrase_matches ''xyz'' mood) MOOD_KEYWORDS \<and>
   expand_mood_query ''xyz'' = ''xyz'' \<and>
   expand_mood_query ''Rainy Afternoon'' =
     ''Rainy Afternoon slice of life drama melancholy calm atmospheric emotional''"
proof -
  have h: "\<not> list_ex (\<lambda>(mood, keywords). spec_phrase_matches ''xyz'' mood) MOOD_KEYWORDS"
    by code_simp
  have k: "spec_matched_keywords ''Rainy Afternoon'' =
      [''slice of life'', ''drama'', ''melancholy'', ''calm'', ''atmospheric'', ''emotional'']"
    by code_simp
  from expand_mood_query_spec [of "''xyz''"] h
  have "expand_mood_query ''xyz'' = ''xyz''" by blast
  moreover from expand_mood_query_spec [of "''Rainy Afternoon''"] k
  have "expand_mood_query ''Rainy Afternoon'' =
     ''Rainy Afternoon slice of life drama melancholy calm atmospheric emotional''"
    by simp
  ultimately show ?thesis using h by blast
qed

lemma split_go_append_space:
  "is_space c \<Longrightarrow> split_go cur (a @ c # b) = split_go cur a @ split_go [] b"
  by (induction a arbitrary: cur) auto

lemma split_join_space:
  "split (join '' '' (x # ys)) = split x @ concat (map split ys)"
proof (induction ys arbitrary: x)
  case Nil
  then show ?case by simp
next
  case (Cons y ys)
  have sp: "is_space CHR '' ''" by (simp add: is_space_def)
  have "split (join '' '' (x # y # ys)) = split_go [] (x @ CHR '' '' # join '' '' (y # ys))"
    by (simp add: split_def)
  also have "\<dots> = split x @ split (join '' '' (y # ys))"
    using split_go_append_space [OF sp] by (simp add: split_def)
  finally show ?case using Cons.IH by simp
qed

text \<open>
  C8. The tokens of \<^verbatim>\<open>expand_mood_query(q)\<close> (its \<^verbatim>\<open>split()\<close>) are a prefix of
  the tokens of \<^verbatim>\<open>expand_mood_query(expand_mood_query(q))\<close>, so every token of the
  first occurs in the second.
\<close>

theorem expand_twice_keeps_tokens:
  "prefix (split (expand_mood_query q)) (split (expand_mood_query (expand_mood_query q))) \<and>
   set (split (expand_mood_query q)) \<subseteq> set (split (expand_mood_query (expand_mood_query q)))"
proof -
  have "split (expand_mood_query (expand_mood_query q)) =
        split (expand_mood_query q) @
          concat (map split (spec_matched_keywords (expand_mood_query q)))"
    by (subst expand_mood_query_terms [of "expand_mood_query q"]) (rule split_join_space)
  then show ?thesis by auto
qed

subsection \<open>Index order and the search loop\<close>

lemma argsort_stable_valid: "is_argsort_of a (argsort_stable a)"
  by (simp add: is_argsort_of_def argsort_stable_def)

lemma is_argsort_of_set:
  assumes "is_argsort_of a idxs"
  shows "set idxs = {0..<length a}"
proof -
  from assms have "mset idxs = mset [0..<length a]"
    by (simp only: is_argsort_of_def)
  then have "set idxs = set [0..<length a]"
    by (rule mset_eq_setD)
  then show ?thesis by simp
qed

lemma is_argsort_of_descending:
  assumes "is_argsort_of a idxs"
  shows "sorted_wrt (\<lambda>i j. a ! i \<ge> a ! j) (rev idxs)"
proof -
  from assms have "sorted (map (\<lambda>i. a ! i) idxs)"
    by (simp only: is_argsort_of_def)
  then have "sorted_wrt (\<lambda>i j. a ! i \<le> a ! j) idxs"
    by (simp only: sorted_map)
  then show ?thesis
    by (simp only: sorted_wrt_rev)
qed

lemma length_cosine_similarity: "length (cosine_similarity x Y) = length Y"
  by (simp add: cosine_similarity_def)

lemma search_loop_closed:
  assumes "\<forall>i \<in> set idxs. i < length data"
    and "length results < nat (max 1 limit)"
  shows "search_loop data sims limit ms idxs results =
     Inr (results @ take (nat (max 1 limit) - length results)
            (map (\<lambda>i. mood_result_of (data ! i) (sims ! i))
               (filter (\<lambda>i. score (data ! i) \<ge> ms) idxs)))"
  using assms
proof (induction idxs arbitrary: results)
  case Nil
  then show ?case by simp
next
  case (Cons idx rest)
  let ?k = "nat (max 1 limit)"
  have idx: "idx < length data" and rest: "\<forall>i \<in> set rest. i < length data"
    using Cons.prems(1) by simp_all
  show ?case
  proof (cases "score (data ! idx) \<ge> ms")
    case False
    with idx rest Cons.IH [of results] Cons.prems(2) show ?thesis by simp
  next
    case True
    let ?r = "mood_result_of (data ! idx) (sims ! idx)"
    show ?thesis
    proof (cases "int (length (results @ [?r])) \<ge> limit")
      case stop: True
      with Cons.prems(2) have "?k - length results = 1" by auto
      with idx True stop show ?thesis by (simp add: Let_def)
    next
      case go: False
      then have lt: "length (results @ [?r]) < ?k" by auto
      have "?k - length results = Suc (?k - length (results @ [?r]))"
        using lt by simp
      with idx True go Cons.IH [OF rest lt] show ?thesis by (simp add: Let_def)
    qed
  qed
qed

lemma filter_rows_count:
  assumes "mset idxs = mset [0..<length data]"
  shows "length (filter (\<lambda>i. P (data ! i)) idxs) = length (filter P data)"
proof -
  have "length (filter (\<lambda>i. P (data ! i)) idxs) = size (filter_mset (\<lambda>i. P (data ! i)) (mset idxs))"
    by (metis mset_filter size_mset)
  also have "\<dots> = size (filter_mset (\<lambda>i. P (data ! i)) (mset [0..<length data]))"
    using assms by simp
  also have "\<dots> = length (filter (\<lambda>i. P (data ! i)) [0..<length data])"
    by (metis mset_filter size_mset)
  also have "\<dots> = length (filter P (map ((!) data) [0..<length data]))"
    by (simp add: filter_map comp_def)
  also have "\<dots> = length (filter P data)"
    by (simp add: map_nth)
  finally show ?thesis .
qed

lemma search_by_mood_closed:
  assumes "tfidf_matrix self = Some X" and "vectorizer self = Some transform"
    and "length (anime_data self) = length X"
    and "is_argsort_of (cosine_similarity (transform (expand_mood_query query)) X)
           (argsort (cosine_similarity (transform (expand_mood_query query)) X))"
  shows "search_by_mood argsort self query limit min_score =
     Inr (take (nat (max 1 limit))
            (map (\<lambda>i. mood_result_of (anime_data self ! i)
                        (cosine_similarity (transform (expand_mood_query query)) X ! i))
               (filter (\<lambda>i. score (anime_data self ! i) \<ge> min_score)
                  (rev (argsort (cosine_similarity (transform (expand_mood_query query)) X))))))"
proof -
  let ?sims = "cosine_similarity (transform (expand_mood_query query)) X"
  have "set (argsort ?sims) = {0..<length ?sims}"
    using assms(4) by (rule is_argsort_of_set)
  then have "\<forall>i \<in> set (rev (argsort ?sims)). i < length (anime_data self)"
    using assms(3) by (simp add: length_cosine_similarity)
  moreover have "length ([] :: mood_result list) < nat (max 1 limit)" by simp
  ultimately have "search_loop (anime_data self) ?sims limit min_score (rev (argsort ?sims)) [] =
      Inr ([] @ take (nat (max 1 limit) - length ([] :: mood_result list))
        (map (\<lambda>i. mood_result_of (anime_data self ! i) (?sims ! i))
           (filter (\<lambda>i. score (anime_data self ! i) \<ge> min_score) (rev (argsort ?sims)))))"
    by (rule search_loop_closed)
  then show ?thesis using assms(1,2) by (simp add: search_by_mood_def Let_def)
qed

lemma accepted_rows_count:
  assumes "length (anime_data self) = length X"
    and "is_argsort_of (cosine_similarity x X) (argsort (cosine_similarity x X))"
  shows "length (filter (\<lambda>i. score (anime_data self ! i) \<ge> min_score)
                   (rev (argsort (cosine_similarity x X)))) =
         length (filter (\<lambda>anime. score anime \<ge> min_score) (anime_data self))"
proof -
  from assms(2) have "mset (argsort (cosine_similarity x X)) = mset [0..<length X]"
    by (simp only: is_argsort_of_def length_cosine_similarity)
  with assms(1) have "mset (rev (argsort (cosine_similarity x X))) =
      mset [0..<length (anime_data self)]"
    by simp
  then show ?thesis by (rule filter_rows_count)
qed

subsection \<open>Mood search\<close>

lemma example_query_zzz: "expand_mood_query ''zzz'' = ''zzz''"
  by code_simp

lemma example_transform_zzz: "example_transform ''zzz'' = [0, 0]"
  by (simp add: example_transform_def lower_def lower_char_def)

lemma example_cosine_zzz: "cosine_similarity [0, 0] [[1, 0], [0, 1]] = [0, 0]"
  by (simp add: cosine_similarity_def normalize_l2_def l2_norm_def dot_def)

lemma example_query_bleach: "expand_mood_query ''bleach'' = ''bleach''"
  by code_simp

lemma example_transform_bleach: "example_transform ''bleach'' = [0, 1]"
  by (simp add: example_transform_def lower_def lower_char_def)

lemma example_cosine_bleach: "cosine_similarity [0, 1] [[1, 0], [0, 1]] = [0, 1]"
  by (simp add: cosine_similarity_def normalize_l2_def l2_norm_def dot_def)

text \<open>
  C1, as stated, fails: a query without any vocabulary term has similarity 0 to both
  rows of the example catalog; \<^verbatim>\<open>argsort\<close> returns the indices 0, 1 for the two
  equal values, the reversal walks row 1 first, and the two tied rows are returned in
  reverse catalog order.
\<close>

theorem search_by_mood_ties_counterexample:
  "cosine_similarity (example_transform (expand_mood_query ''zzz'')) [[1, 0], [0, 1]] = [0, 0] \<and>
   argsort_stable [0, 0] = [0, 1] \<and>
   search_by_mood argsort_stable example_engine ''zzz'' 10 0 =
     Inr [mood_result_of bleach 0, mood_result_of naruto 0]"
  by (simp add: search_by_mood_def example_engine_def example_query_zzz example_transform_zzz
      example_cosine_zzz argsort_stable_def naruto_def bleach_def)

text \<open>
  C1, amended. On a fitted index (matrix and vectorizer present, one catalog entry for
  each matrix row) and with an \<^verbatim>\<open>argsort\<close> that returns an ascending index
  permutation, \<^verbatim>\<open>search_by_mood\<close> walks every row exactly once, in descending
  order of cosine similarity, and returns the accepted rows in that order, cut after
  \<open>max 1 limit\<close> entries. Nothing is said of the order among rows of equal similarity:
  it is the one the reversed \<^verbatim>\<open>argsort\<close> leaves, not the catalog order.
\<close>

theorem search_by_mood_order:
  assumes "tfidf_matrix self = Some X" and "vectorizer self = Some transform"
    and "length (anime_data self) = length X"
    and "sims = cosine_similarity (transform (expand_mood_query query)) X"
    and "is_argsort_of sims (argsort sims)"
    and "order = rev (argsort sims)"
  shows "mset order = mset [0..<length X] \<and>
     sorted_wrt (\<lambda>i j. sims ! i \<ge> sims ! j) order \<and>
     search_by_mood argsort self query limit min_score =
       Inr (take (nat (max 1 limit))
              (map (\<lambda>i. mood_result_of (anime_data self ! i) (sims ! i))
                 (filter (\<lambda>i. score (anime_data self ! i) \<ge> min_score) order)))"
proof (intro conjI)
  from assms(5) have "mset (argsort sims) = mset [0..<length sims]"
    by (simp only: is_argsort_of_def)
  then show "mset order = mset [0..<length X]"
    unfolding assms(6) using assms(4) by (simp add: length_cosine_similarity)
  show "sorted_wrt (\<lambda>i j. sims ! i \<ge> sims ! j) order"
    unfolding assms(6) using assms(5) by (rule is_argsort_of_descending)
  show "search_by_mood argsort self query limit min_score =
       Inr (take (nat (max 1 limit))
              (map (\<lambda>i. mood_result_of (anime_data self ! i) (sims ! i))
                 (filter (\<lambda>i. score (anime_data self ! i) \<ge> min_score) order)))"
    unfolding assms(6) using assms(5) unfolding assms(4)
    by (rule search_by_mood_closed [OF assms(1,2,3)])
qed

theorem search_by_mood_order_witness:
  "tfidf_matrix example_engine = Some [[1, 0], [0, 1]] \<and>
   vectorizer example_engine = Some example_transform \<and>
   length (anime_data example_engine) = length [[1, 0], [0, 1 :: real]] \<and>
   [0, 1] = cosine_similarity (example_transform (expand_mood_query ''bleach'')) [[1, 0], [0, 1]] \<and>
   is_argsort_of [0, 1] (argsort_stable [0, 1]) \<and>
   mset (rev (argsort_stable [0, 1])) = mset [0..<length [[1, 0], [0, 1 :: real]]] \<and>
   sorted_wrt (\<lambda>i j. [0, 1 :: real] ! i \<ge> [0, 1] ! j) (rev (argsort_stable [0, 1])) \<and>
   search_by_mood argsort_stable example_engine ''bleach'' 10 0 =
     Inr (take (nat (max 1 10))
            (map (\<lambda>i. mood_result_of (anime_data example_engine ! i) ([0, 1] ! i))
               (filter (\<lambda>i. score (anime_data example_engine ! i) \<ge> 0)
                  (rev (argsort_stable [0, 1])))))"
proof -
  have h1: "tfidf_matrix example_engine = Some [[1, 0], [0, 1]]"
    and h2: "vectorizer example_engine = Some example_transform"
    and h3: "length (anime_data example_engine) = length [[1, 0], [0, 1 :: real]]"
    by (simp_all add: example_engine_def)
  have h4: "[0, 1] = cosine_similarity (example_transform (expand_mood_query ''bleach''))
      [[1, 0], [0, 1]]"
    by (simp add: example_query_bleach example_transform_bleach example_cosine_bleach)
  have h5: "is_argsort_of [0, 1] (argsort_stable [0, 1])"
    by (rule argsort_stable_valid)
  from search_by_mood_order [where argsort = argsort_stable and limit = 10 and min_score = 0,
      OF h1 h2 h3 h4 h5 refl] h1 h2 h3 h4 h5
  show ?thesis
    by blast
qed

text \<open>
  C2. On a fitted index and for \<open>0 < limit\<close>, \<^verbatim>\<open>search_by_mood\<close> returns a list
  of at most \<open>limit\<close> results, each with a score of at least \<open>min_score\<close>; its length
  is the smaller of \<open>limit\<close> and the number of catalog items that pass the score
  filter, so the limit counts accepted items and not rows scanned. This holds for
  every \<^verbatim>\<open>argsort\<close> that returns an ascending index permutation.
\<close>

theorem search_by_mood_limit:
  assumes "tfidf_matrix self = Some X" and "vectorizer self = Some transform"
    and "length (anime_data self) = length X"
    and "is_argsort_of (cosine_similarity (transform (expand_mood_query query)) X)
           (argsort (cosine_similarity (transform (expand_mood_query query)) X))"
    and "0 < limit"
  shows "\<exists>results. search_by_mood argsort self query limit min_score = Inr results \<and>
     int (length results) \<le> limit \<and>
     (\<forall>r \<in> set results. r_score r \<ge> min_score) \<and>
     length results =
       min (nat limit) (length (filter (\<lambda>anime. score anime \<ge> min_score) (anime_data self)))"
proof -
  let ?sims = "cosine_similarity (transform (expand_mood_query query)) X"
  let ?order = "rev (argsort ?sims)"
  let ?accepted = "filter (\<lambda>i. score (anime_data self ! i) \<ge> min_score) ?order"
  let ?results = "take (nat (max 1 limit))
      (map (\<lambda>i. mood_result_of (anime_data self ! i) (?sims ! i)) ?accepted)"
  have run: "search_by_mood argsort self query limit min_score = Inr ?results"
    using assms(1,2,3,4) by (rule search_by_mood_closed)
  have k: "nat (max 1 limit) = nat limit"
    using assms(5) by simp
  have count: "length ?accepted =
      length (filter (\<lambda>anime. score anime \<ge> min_score) (anime_data self))"
    using assms(3,4) by (rule accepted_rows_count)
  have len: "length ?results =
      min (nat limit) (length (filter (\<lambda>anime. score anime \<ge> min_score) (anime_data self)))"
    using k count by simp
  have "int (length ?results) \<le> limit"
    using k assms(5) by simp
  moreover have "\<forall>r \<in> set ?results. r_score r \<ge> min_score"
  proof
    fix r assume "r \<in> set ?results"
    then have "r \<in> set (map (\<lambda>i. mood_result_of (anime_data self ! i) (?sims ! i)) ?accepted)"
      by (rule in_set_takeD)
    then show "r_score r \<ge> min_score"
      by (auto simp: mood_result_of_def)
  qed
  ultimately show ?thesis using run len by blast
qed

theorem search_by_mood_limit_witness:
  "tfidf_matrix example_engine = Some [[1, 0], [0, 1]] \<and>
   vectorizer example_engine = Some example_transform \<and>
   length (anime_data example_engine) = length [[1, 0], [0, 1 :: real]] \<and>
   is_argsort_of (cosine_similarity (example_transform (expand_mood_query ''naruto'')) [[1, 0], [0, 1]])
     (argsort_stable
        (cosine_similarity (example_transform (expand_mood_query ''naruto'')) [[1, 0], [0, 1]])) \<and>
   (0 :: int) < 1 \<and>
   (\<exists>results. search_by_mood argsort_stable example_engine ''naruto'' 1 0 = Inr results \<and>
     int (length results) \<le> 1 \<and>
     (\<forall>r \<in> set results. r_score r \<ge> 0) \<and>
     length results =
       min (nat 1) (length (filter (\<lambda>anime. score anime \<ge> 0) (anime_data example_engine))))"
proof -
  have h1: "tfidf_matrix example_engine = Some [[1, 0], [0, 1]]"
    and h2: "vectorizer example_engine = Some example_transform"
    and h3: "length (anime_data example_engine) = length [[1, 0], [0, 1 :: real]]"
    by (simp_all add: example_engine_def)
  have h4: "is_argsort_of
      (cosine_similarity (example_transform (expand_mood_query ''naruto'')) [[1, 0], [0, 1]])
      (argsort_stable
         (cosine_similarity (example_transform (expand_mood_query ''naruto'')) [[1, 0], [0, 1]]))"
    by (rule argsort_stable_valid)
  have h5: "(0 :: int) < 1" by simp
  from search_by_mood_limit [where argsort = argsort_stable and query = "''naruto''"
      and min_score = 0, OF h1 h2 h3 h4 h5] h1 h2 h3 h4 h5
  show ?thesis
    by blast
qed

text \<open>
  C9. On a fitted index and for \<open>limit \<le> 0\<close>, when some catalog item has a score of
  at least \<open>min_score\<close>, \<^verbatim>\<open>search_by_mood\<close> returns exactly one result: the length
  test follows the append. This holds for every \<^verbatim>\<open>argsort\<close> that returns an
  ascending index permutation.
\<close>

theorem search_by_mood_nonpositive_limit:
  assumes "tfidf_matrix self = Some X" and "vectorizer self = Some transform"
    and "length (anime_data self) = length X"
    and "is_argsort_of (cosine_similarity (transform (expand_mood_query query)) X)
           (argsort (cosine_similarity (transform (expand_mood_query query)) X))"
    and "limit \<le> 0"
    and "\<exists>anime \<in> set (anime_data self). score anime \<ge> min_score"
  shows "\<exists>r. search_by_mood argsort self query limit min_score = Inr [r]"
proof -
  let ?sims = "cosine_similarity (transform (expand_mood_query query)) X"
  let ?order = "rev (argsort ?sims)"
  let ?accepted = "filter (\<lambda>i. score (anime_data self ! i) \<ge> min_score) ?order"
  let ?all = "map (\<lambda>i. mood_result_of (anime_data self ! i) (?sims ! i)) ?accepted"
  have run: "search_by_mood argsort self query limit min_score =
      Inr (take (nat (max 1 limit)) ?all)"
    using assms(1,2,3,4) by (rule search_by_mood_closed)
  have k: "nat (max 1 limit) = 1"
    using assms(5) by simp
  have "length ?accepted =
      length (filter (\<lambda>anime. score anime \<ge> min_score) (anime_data self))"
    using assms(3,4) by (rule accepted_rows_count)
  moreover have "filter (\<lambda>anime. score anime \<ge> min_score) (anime_data self) \<noteq> []"
    using assms(6) by (simp add: filter_empty_conv)
  ultimately have "?all \<noteq> []" by auto
  then obtain r rs where "?all = r # rs" by (cases ?all) auto
  with run k have "search_by_mood argsort self query limit min_score = Inr [r]" by simp
  then show ?thesis ..
qed

theorem search_by_mood_nonpositive_limit_witness:
  "tfidf_matrix example_engine = Some [[1, 0], [0, 1]] \<and>
   vectorizer example_engine = Some example_transform \<and>
   length (anime_data example_engine) = length [[1, 0], [0, 1 :: real]] \<and>
   is_argsort_of (cosine_similarity (example_transform (expand_mood_query ''naruto'')) [[1, 0], [0, 1]])
     (argsort_stable
        (cosine_similarity (example_transform (expand_mood_query ''naruto'')) [[1, 0], [0, 1]])) \<and>
   (0 :: int) \<le> 0 \<and>
   (\<exists>anime \<in> set (anime_data example_engine). score anime \<ge> 0) \<and>
   (\<exists>r. search_by_mood argsort_stable example_engine ''naruto'' 0 0 = Inr [r])"
proof -
  have h1: "tfidf_matrix example_engine = Some [[1, 0], [0, 1]]"
    and h2: "vectorizer example_engine = Some example_transform"
    and h3: "length (anime_data example_engine) = length [[1, 0], [0, 1 :: real]]"
    by (simp_all add: example_engine_def)
  have h4: "is_argsort_of
      (cosine_similarity (example_transform (expand_mood_query ''naruto'')) [[1, 0], [0, 1]])
      (argsort_stable
         (cosine_similarity (example_transform (expand_mood_query ''naruto'')) [[1, 0], [0, 1]]))"
    by (rule argsort_stable_valid)
  have h5: "(0 :: int) \<le> 0" by simp
  have h6: "\<exists>anime \<in> set (anime_data example_engine). score anime \<ge> 0"
    by (simp add: example_engine_def naruto_def)
  from search_by_mood_nonpositive_limit [where argsort = argsort_stable
      and query = "''naruto''", OF h1 h2 h3 h4 h5 h6] h1 h2 h3 h4 h5 h6
  show ?thesis by blast
qed

subsection \<open>Similar items\<close>

lemma find_index_None: "find_index anime_id data idx = None \<longleftrightarrow> anime_id \<notin> a_id ` set data"
  by (induction data arbitrary: idx) auto

text \<open>
  C5. When the matrix is fitted and no catalog item has the id \<open>anime_id\<close>,
  \<^verbatim>\<open>find_similar_anime\<close> returns the empty list and raises nothing.
\<close>

theorem find_similar_anime_unknown_id:
  assumes "tfidf_matrix self = Some X"
    and "anime_id \<notin> a_id ` set (anime_data self)"
  shows "find_similar_anime argsort self anime_id limit = Inr []"
  using assms by (simp add: find_similar_anime_def find_index_None [THEN iffD2])

theorem find_similar_anime_unknown_id_witness:
  "tfidf_matrix example_engine = Some [[1, 0], [0, 1]] \<and>
   (3 :: int) \<notin> a_id ` set (anime_data example_engine) \<and>
   find_similar_anime argsort_stable example_engine 3 10 = Inr []"
proof -
  have h1: "tfidf_matrix example_engine = Some [[1, 0], [0, 1]]"
    by (simp add: example_engine_def)
  have h2: "(3 :: int) \<notin> a_id ` set (anime_data example_engine)"
    by (simp add: example_engine_def naruto_def bleach_def)
  from find_similar_anime_unknown_id [where argsort = argsort_stable and limit = 10, OF h1 h2]
    h1 h2
  show ?thesis by blast
qed

text \<open>
  In the catalog with two items of the same text both rows have similarity 1 to
  either row, and \<^verbatim>\<open>argsort\<close> can return the two indices in either order. Whichever
  it returns, one of the two items is found similar to itself.
\<close>

lemma find_similar_anime_twin_any_order:
  assumes "is_argsort_of [1, 1] (argsort [1, 1])"
  shows "find_similar_anime argsort twin_engine 1 10 = Inr [similar_result_of naruto 1] \<or>
         find_similar_anime argsort twin_engine 2 10 = Inr [similar_result_of naruto_again 1]"
proof -
  from assms have m: "mset (argsort [1, 1]) = {#0, 1#}"
    by (simp add: is_argsort_of_def)
  then have "size (mset (argsort [1, 1])) = 2" by simp
  then have "length (argsort [1, 1]) = 2" by simp
  then obtain a b where ab: "argsort [1, 1] = [a, b]"
    by (auto simp: length_Suc_conv numeral_2_eq_2)
  with m have "(a = 0 \<and> b = 1) \<or> (a = 1 \<and> b = 0)"
    by (auto simp: add_eq_conv_ex)
  then show ?thesis
  proof
    assume "a = 0 \<and> b = 1"
    with ab have "argsort [1, 1] = [0, 1]" by simp
    then have "find_similar_anime argsort twin_engine 1 10 = Inr [similar_result_of naruto 1]"
      by (simp add: find_similar_anime_def twin_engine_def naruto_def naruto_again_def
          cosine_similarity_def normalize_l2_def l2_norm_def dot_def slice_from_1_def)
    then show ?thesis ..
  next
    assume "a = 1 \<and> b = 0"
    with ab have "argsort [1, 1] = [1, 0]" by simp
    then have "find_similar_anime argsort twin_engine 2 10 =
        Inr [similar_result_of naruto_again 1]"
      by (simp add: find_similar_anime_def twin_engine_def naruto_def naruto_again_def
          cosine_similarity_def normalize_l2_def l2_norm_def dot_def slice_from_1_def)
    then show ?thesis ..
  qed
qed

text \<open>
  C4 fails on the code. In the catalog with two items of the same text, both rows
  have similarity 1 to the row of item 1; \<^verbatim>\<open>argsort\<close> returns the indices 0, 1,
  the reversal puts row 1 (item 2) first, the slice \<^verbatim>\<open>[1:limit+1]\<close> drops it, and
  \<^verbatim>\<open>find_similar_anime(1, 10)\<close> returns item 1 itself.
\<close>

theorem find_similar_anime_returns_self:
  "find_similar_anime argsort_stable twin_engine 1 10 =
     Inr [\<lparr>s_id = 1, s_title = ''Naruto'', s_genres = [], s_score = 8, s_similarity = 1\<rparr>]"
  by (simp add: find_similar_anime_def twin_engine_def naruto_def naruto_again_def
      cosine_similarity_def normalize_l2_def l2_norm_def dot_def argsort_stable_def
      slice_from_1_def similar_result_of_def)

subsection \<open>Training and loading\<close>

text \<open>
  A successful \<^verbatim>\<open>train\<close> leaves a fitted index: matrix and vectorizer are present
  and, \<^verbatim>\<open>fit_transform\<close> returning one row for each document, the catalog has one
  entry for each matrix row.
\<close>

lemma train_fitted:
  assumes "anime_data self \<noteq> []"
    and "\<forall>corpus. length (snd (fit_transform corpus)) = length corpus"
  shows "fst (train fit_transform KMeans_fit self) = None \<and>
     (\<exists>X transform.
        tfidf_matrix (snd (train fit_transform KMeans_fit self)) = Some X \<and>
        vectorizer (snd (train fit_transform KMeans_fit self)) = Some transform \<and>
        length (anime_data (snd (train fit_transform KMeans_fit self))) = length X)"
proof -
  obtain fitted X where ft: "fit_transform (map to_text (anime_data self)) = (fitted, X)"
    by (cases "fit_transform (map to_text (anime_data self))")
  with assms(2) have "length X = length (anime_data self)"
    by (metis length_map snd_conv)
  with assms(1) ft show ?thesis
    by (simp add: train_def Let_def)
qed

text \<open>
  C7. \<^verbatim>\<open>train\<close> on an engine without catalog records raises the \<^verbatim>\<open>ValueError\<close>
  and leaves the whole state, the matrix included, as it was.
\<close>

theorem train_empty:
  assumes "anime_data self = []"
  shows "train fit_transform KMeans_fit self =
     (Some (ValueError ''No anime data loaded. Call load_anime_data first.''), self)"
  using assms by (simp add: train_def)

theorem train_empty_witness:
  "anime_data (init :: unit engine) = [] \<and>
   train (\<lambda>corpus. (\<lambda>text. [], map (\<lambda>d. []) corpus)) (\<lambda>n X. ()) init =
     (Some (ValueError ''No anime data loaded. Call load_anime_data first.''), init) \<and>
   tfidf_matrix (snd (train (\<lambda>corpus. (\<lambda>text. [], map (\<lambda>d. []) corpus)) (\<lambda>n X. ())
     (init :: unit engine))) = None"
proof -
  have h: "anime_data (init :: unit engine) = []" by (simp add: init_def)
  from train_empty [OF h, of "\<lambda>corpus. (\<lambda>text. [], map (\<lambda>d. []) corpus)" "\<lambda>n X. ()"] h
  show ?thesis by (simp add: init_def)
qed

text \<open>
  C10. \<^verbatim>\<open>load_anime_data\<close> replaces \<^verbatim>\<open>anime_data\<close> and nothing else: matrix,
  vectorizer and clustering are those of the state before. Both ranking operations
  on the new state therefore run the old matrix and vectorizer against the new catalog.
\<close>

theorem load_anime_data_frame:
  "anime_data (load_anime_data anime_list self) = map AnimeData_of anime_list \<and>
   tfidf_matrix (load_anime_data anime_list self) = tfidf_matrix self \<and>
   vectorizer (load_anime_data anime_list self) = vectorizer self \<and>
   kmeans (load_anime_data anime_list self) = kmeans self \<and>
   search_by_mood argsort (load_anime_data anime_list self) query limit min_score =
     (case tfidf_matrix self of
        None \<Rightarrow> Inl (ValueError ''Model not trained. Call train() first.'')
      | Some X \<Rightarrow>
          (case vectorizer self of
             None \<Rightarrow> Inl NotFittedError
           | Some transform \<Rightarrow>
               search_loop (map AnimeData_of anime_list)
                 (cosine_similarity (transform (expand_mood_query query)) X) limit min_score
                 (rev (argsort (cosine_similarity (transform (expand_mood_query query)) X))) [])) \<and>
   find_similar_anime argsort (load_anime_data anime_list self) anime_id limit =
     (case tfidf_matrix self of
        None \<Rightarrow> Inl (ValueError ''Model not trained. Call train() first.'')
      | Some X \<Rightarrow>
          (case find_index anime_id (map AnimeData_of anime_list) 0 of
             None \<Rightarrow> Inr []
           | Some anime_idx \<Rightarrow>
               if anime_idx < length X
               then similar_loop (map AnimeData_of anime_list)
                      (cosine_similarity (X ! anime_idx) X)
                      (slice_from_1 (rev (argsort (cosine_similarity (X ! anime_idx) X))) (limit + 1)) []
               else Inl IndexError))"
  by (simp add: load_anime_data_def search_by_mood_def find_similar_anime_def Let_def
      split: option.splits)

subsection \<open>Party matching\<close>

lemma match_loop_step:
  assumes "finite user_set"
  shows "match_loop user_set (other # rest) min_overlap matches =
     match_loop user_set rest min_overlap
       (if user_set \<union> set (watchlist other) \<noteq> {} \<and>
           spec_jaccard user_set (set (watchlist other)) \<ge> min_overlap
        then matches @ [spec_match_of user_set other] else matches)"
proof (cases "user_set \<union> set (watchlist other) = {}")
  case True
  then have "card (user_set \<union> set (watchlist other)) = 0"
    by (simp only: card.empty)
  with True show ?thesis
    by (simp only: match_loop.simps Let_def) simp
next
  case False
  with assms have "0 < card (user_set \<union> set (watchlist other))"
    by (simp only: card_gt_0_iff) simp
  moreover from False
  have "spec_jaccard user_set (set (watchlist other)) =
      real (card (user_set \<inter> set (watchlist other))) /
      real (card (user_set \<union> set (watchlist other)))"
    by (simp only: spec_jaccard_def if_False)
  ultimately show ?thesis using False
    by (simp only: match_loop.simps Let_def spec_match_of_def if_True simp_thms)
      (simp split: if_split)
qed

lemma match_loop_closed:
  assumes "finite user_set"
  shows "match_loop user_set others min_overlap matches =
     matches @ map (spec_match_of user_set)
       (filter (\<lambda>c. user_set \<union> set (watchlist c) \<noteq> {} \<and>
                    spec_jaccard user_set (set (watchlist c)) \<ge> min_overlap) others)"
proof (induction others arbitrary: matches)
  case Nil
  then show ?case by simp
next
  case (Cons other rest)
  show ?case
    by (simp only: match_loop_step [OF assms] Cons.IH) simp
qed

lemma mset_sort_reverse: "mset (sort_reverse key xs) = mset xs"
  by (simp add: sort_reverse_def)

lemma sorted_sort_reverse: "sorted_wrt (\<lambda>a b. key a \<ge> key b) (sort_reverse key xs)"
proof -
  have "sorted (map key (sort_key key (rev xs)))"
    by (rule sorted_sort_key)
  then have "sorted_wrt (\<lambda>a b. key a \<le> key b) (sort_key key (rev xs))"
    by (simp add: sorted_map)
  then show ?thesis
    by (simp add: sort_reverse_def sorted_wrt_rev)
qed

lemma sort_reverse_stable:
  "filter (\<lambda>x. key x = k) (sort_reverse key xs) = filter (\<lambda>x. key x = k) xs"
proof -
  have "filter (\<lambda>x. key x = k) (sort_reverse key xs) =
        rev (filter (\<lambda>x. key x = k) (sort_key key (rev xs)))"
    by (simp add: sort_reverse_def rev_filter)
  also have "\<dots> = rev (filter (\<lambda>x. key x = k) (rev xs))"
    by (simp only: sort_key_stable)
  also have "\<dots> = filter (\<lambda>x. key x = k) xs"
    by (simp add: rev_filter)
  finally show ?thesis .
qed

text \<open>
  C3, as stated, fails when \<open>min_overlap \<le> 0\<close>: for an empty target and a candidate
  with an empty watchlist the similarity of the specification is 0, which reaches a
  \<open>min_overlap\<close> of 0, and yet the candidate is not kept.
\<close>

theorem party_match_empty_union_counterexample:
  "spec_jaccard (set []) (set (watchlist \<lparr>user_id = 7 :: int, watchlist = []\<rparr>)) \<ge> 0 \<and>
   party_match [] [\<lparr>user_id = 7 :: int, watchlist = []\<rparr>] 0 = []"
  by (simp add: spec_jaccard_def party_match_def sort_reverse_def)

text \<open>
  C3, amended. \<^verbatim>\<open>party_match\<close> keeps exactly the candidates whose union with the
  target is not empty and whose Jaccard similarity is at least \<open>min_overlap\<close>; for
  each it reports the user id, the Jaccard value, the intersection and its size; the
  result is sorted by compatibility in descending order, and results of equal
  compatibility keep the order of the input.
\<close>

theorem party_match_spec:
  "mset (party_match target candidates min_overlap) =
     mset (map (spec_match_of (set target))
       (filter (\<lambda>c. set target \<union> set (watchlist c) \<noteq> {} \<and>
                    spec_jaccard (set target) (set (watchlist c)) \<ge> min_overlap) candidates)) \<and>
   sorted_wrt (\<lambda>a b. compatibility a \<ge> compatibility b)
     (party_match target candidates min_overlap) \<and>
   (\<forall>k. filter (\<lambda>x. compatibility x = k) (party_match target candidates min_overlap) =
        filter (\<lambda>x. compatibility x = k)
          (map (spec_match_of (set target))
             (filter (\<lambda>c. set target \<union> set (watchlist c) \<noteq> {} \<and>
                          spec_jaccard (set target) (set (watchlist c)) \<ge> min_overlap) candidates)))"
proof -
  let ?kept = "map (spec_match_of (set target))
       (filter (\<lambda>c. set target \<union> set (watchlist c) \<noteq> {} \<and>
                    spec_jaccard (set target) (set (watchlist c)) \<ge> min_overlap) candidates)"
  have "match_loop (set target) candidates min_overlap [] = [] @ ?kept"
    by (rule match_loop_closed) simp
  then have run: "party_match target candidates min_overlap = sort_reverse compatibility ?kept"
    by (simp add: party_match_def)
  show ?thesis
    unfolding run
    by (simp only: mset_sort_reverse sorted_sort_reverse sort_reverse_stable simp_thms)
qed

theorem party_match_spec_witness:
  "party_match [10, 20, 30] [\<lparr>user_id = 7 :: int, watchlist = [20, 30, 40]\<rparr>] 0.3 =
     [\<lparr>m_user_id = 7, compatibility = 1 / 2, shared_anime = {20, 30}, shared_count = 2\<rparr>]"
proof -
  have kept: "map (spec_match_of (set [10, 20, 30]))
       (filter (\<lambda>c. set [10, 20, 30] \<union> set (watchlist c) \<noteq> {} \<and>
                    spec_jaccard (set [10, 20, 30]) (set (watchlist c)) \<ge> 0.3)
          [\<lparr>user_id = 7 :: int, watchlist = [20, 30, 40]\<rparr>]) =
     [\<lparr>m_user_id = 7, compatibility = 1 / 2, shared_anime = {20, 30}, shared_count = 2\<rparr>]"
    by code_simp
  from party_match_spec [of "[10, 20, 30]" "[\<lparr>user_id = 7 :: int, watchlist = [20, 30, 40]\<rparr>]" "0.3"]
  have "mset (party_match [10, 20, 30] [\<lparr>user_id = 7 :: int, watchlist = [20, 30, 40]\<rparr>] 0.3) =
     mset [\<lparr>m_user_id = 7, compatibility = 1 / 2, shared_anime = {20, 30}, shared_count = 2\<rparr>]"
    unfolding kept by blast
  then show ?thesis by simp
qed

end
